theory Spec2Isabelle
  imports Complex_Main
begin

section \<open>Shared vocabulary of the request handlers\<close>

text \<open>
  The handlers of \<^verbatim>\<open>app.js\<close> call the resource API (\<^verbatim>\<open>apiService.get\<close>), which
  either resolves to a response body or rejects.  A rejection, and a \<^verbatim>\<open>TypeError\<close>
  raised by the handler's own code, are values of \<open>error\<close>; every handler wraps its
  body in \<^verbatim>\<open>try { ... } catch (err) { res.status(500).send("Internal Server Error") }\<close>.
\<close>

datatype error = UpstreamError | TypeError

text \<open>\<^verbatim>\<open>res.json(body)\<close> answers 200 with the body; \<^verbatim>\<open>res.status(c).send(msg)\<close> answers \<open>c\<close>.\<close>

datatype 'b response = Json 'b | Status nat string

text \<open>
  A response body of \<^verbatim>\<open>GET /sessions\<close>: \<^verbatim>\<open>{ data: [...], last: "<cursor>" }\<close>, where
  either field may be missing.
\<close>

record 'a page =
  data :: "'a list option"
  last_cursor :: "string option"

section \<open>GET /session-list-by-room: the pagination loop\<close>

record filters =
  room_id :: string
  limit :: nat
  start :: "string option"

text \<open>
  The resource API as the loop sees it: the answer to the \<open>n\<close>-th call (counted from 0)
  with the given query.  Any deterministic upstream, stateful or not, is of this shape.
\<close>

type_synonym 'a resource_api = "nat \<Rightarrow> filters \<Rightarrow> error + 'a page"

text \<open>
  \<^verbatim>\<open>allSessions\<close> starts as the array \<^verbatim>\<open>[]\<close>; after
  \<^verbatim>\<open>allSessions = allSessions.push(...)\<close> it holds what \<^verbatim>\<open>push\<close> returned, a number.
\<close>

datatype 'a all_sessions = JArray "'a list list" | JNumber nat

text \<open>
  \<^verbatim>\<open>Array.prototype.push\<close>: appends the argument as one element and returns the new
  length.  The result is the mutated receiver together with the returned value.  A number
  has no method \<^verbatim>\<open>push\<close>: calling it raises a \<^verbatim>\<open>TypeError\<close>.
\<close>

fun push :: "'a all_sessions \<Rightarrow> 'a list \<Rightarrow> error + ('a all_sessions \<times> nat)" where
  "push (JArray xs) p = Inr (JArray (xs @ [p]), length xs + 1)"
| "push (JNumber n) p = Inl TypeError"

text \<open>\<^verbatim>\<open>if (last)\<close>: \<^verbatim>\<open>undefined\<close> and the empty string are falsy.\<close>

fun truthy :: "string option \<Rightarrow> bool" where
  "truthy None = False"
| "truthy (Some s) = (s \<noteq> [])"

text \<open>How many calls of \<^verbatim>\<open>push\<close> a value of \<^verbatim>\<open>allSessions\<close> can still take.\<close>

fun pushes_left :: "'a all_sessions \<Rightarrow> nat" where
  "pushes_left (JArray xs) = 1"
| "pushes_left (JNumber n) = 0"

text \<open>
  The \<^verbatim>\<open>while (true)\<close> loop.  Its state is \<^verbatim>\<open>allSessions\<close> and \<^verbatim>\<open>last\<close> (here
  \<open>last'\<close>); \<open>calls\<close> records the query of every call issued so far, so its length is
  the number of requests.  The result is the value of \<^verbatim>\<open>allSessions\<close> at the
  \<^verbatim>\<open>break\<close>, or the error thrown, with the final log.
\<close>

function walk :: "'a resource_api \<Rightarrow> string \<Rightarrow> 'a all_sessions \<Rightarrow> string option \<Rightarrow> filters list
    \<Rightarrow> (error + 'a all_sessions) \<times> filters list" where
  "walk api room allSessions last' calls =
     (let filters = \<lparr>room_id = room, limit = 20,
                      start = (if truthy last' then last' else None)\<rparr>;
          calls' = calls @ [filters]
      in case api (length calls) filters of
           Inl err \<Rightarrow> (Inl err, calls')
         | Inr someSessionListData \<Rightarrow>
             (case data someSessionListData of
                None \<Rightarrow> (Inr allSessions, calls')
              | Some d \<Rightarrow>
                  if length d = 0 then (Inr allSessions, calls')
                  else (case push allSessions d of
                          Inl err \<Rightarrow> (Inl err, calls')
                        | Inr (mutated, returned) \<Rightarrow>
                            if length d < 20 then (Inr (JNumber returned), calls')
                            else walk api room (JNumber returned)
                                   (last_cursor someSessionListData) calls')))"
  by pat_completeness auto

text \<open>
  The loop has no iteration cap of its own.  It terminates all the same: a further
  iteration is reached only after a successful \<^verbatim>\<open>push\<close>, which needs an array and leaves
  a number behind.
\<close>

termination walk
proof (relation "measure (\<lambda>(api, room, allSessions, last', calls). pushes_left allSessions)")
  show "wf (measure (\<lambda>(api :: 'a resource_api, room :: string, allSessions :: 'a all_sessions,
      last' :: string option, calls :: filters list). pushes_left allSessions))"
    by simp
next
  fix api :: "'a resource_api" and room :: string and allSessions :: "'a all_sessions"
    and last' :: "string option" and calls calls' :: "filters list"
    and someSessionListData :: "'a page" and d :: "'a list"
    and pushed :: "'a all_sessions \<times> nat" and mutated :: "'a all_sessions" and returned :: nat
    and q :: filters
  assume "push allSessions d = Inr pushed" and "(mutated, returned) = pushed"
  then show "((api, room, JNumber returned, last_cursor someSessionListData, calls'),
       api, room, allSessions, last', calls)
    \<in> measure (\<lambda>(api, room, allSessions, last', calls). pushes_left allSessions)"
    by (cases allSessions) auto
qed

text \<open>The defining equation unfolds forever; it is applied by hand where needed.\<close>

declare walk.simps [simp del]

definition session_list_by_room ::
    "'a resource_api \<Rightarrow> string \<Rightarrow> 'a all_sessions response \<times> filters list" where
  "session_list_by_room api room =
     (case walk api room (JArray []) None [] of
        (Inl err, calls) \<Rightarrow> (Status 500 ''Internal Server Error'', calls)
      | (Inr allSessions, calls) \<Rightarrow> (Json allSessions, calls))"

text \<open>The query of the first iteration, and of the one after a page \<open>p\<close>.\<close>

definition first_query :: "string \<Rightarrow> filters" where
  "first_query room = \<lparr>room_id = room, limit = 20, start = None\<rparr>"

definition next_query :: "string \<Rightarrow> 'a page \<Rightarrow> filters" where
  "next_query room p =
     \<lparr>room_id = room, limit = 20,
      start = (if truthy (last_cursor p) then last_cursor p else None)\<rparr>"

text \<open>
  The items an answer delivers: none when the call failed or \<^verbatim>\<open>data\<close> is missing.  The
  loop treats a missing \<^verbatim>\<open>data\<close> and an empty one alike
  (\<^verbatim>\<open>!someSessionListData.data || someSessionListData.data.length == 0\<close>).
\<close>

fun page_items :: "error + 'a page \<Rightarrow> 'a list" where
  "page_items (Inl err) = []"
| "page_items (Inr p) = (case data p of None \<Rightarrow> [] | Some d \<Rightarrow> d)"

text \<open>The number of items the upstream handed over in answer to the logged calls.\<close>

definition delivered :: "'a resource_api \<Rightarrow> filters list \<Rightarrow> nat" where
  "delivered api calls =
     sum_list (map (\<lambda>i. length (page_items (api i (calls ! i)))) [0..<length calls])"

text \<open>
  A simulated upstream for concrete runs: the \<open>n\<close>-th call is answered with the \<open>n\<close>-th
  page of a script, and with a body without \<^verbatim>\<open>data\<close> once the script is used up.
\<close>

definition serve :: "'a page list \<Rightarrow> 'a resource_api" where
  "serve pages n q =
     (if n < length pages then Inr (pages ! n) else Inr \<lparr>data = None, last_cursor = None\<rparr>)"

definition full_page :: "string \<Rightarrow> nat page" where
  "full_page cursor = \<lparr>data = Some (replicate 20 0), last_cursor = Some cursor\<rparr>"

definition short_page :: "nat page" where
  "short_page = \<lparr>data = Some [0], last_cursor = Some ''more''\<rparr>"

section \<open>GET /session-analytics-by-room: durations per user\<close>

subsection \<open>Numbers, strings and objects as operands\<close>

text \<open>
  A JavaScript number is modelled by the rational it stands for: arithmetic is exact, and
  \<^verbatim>\<open>NaN\<close> and the infinities do not occur.  Timestamps are taken as parsed:
  \<^verbatim>\<open>moment(t)\<close> of a well-formed timestamp is an instant, a whole number of milliseconds.

  \<^verbatim>\<open>moment(a).diff(moment(b))\<close> is the difference in milliseconds, and
  \<^verbatim>\<open>moment.duration(ms).asMinutes()\<close> divides it by 60000.
\<close>

definition moment_diff :: "int \<Rightarrow> int \<Rightarrow> int" where
  "moment_diff a b = a - b"

definition asMinutes :: "int \<Rightarrow> rat" where
  "asMinutes ms = of_int ms / 60000"

text \<open>
  \<^verbatim>\<open>Math.round\<close>: the nearest integer, and of two equally near ones the one closer to
  \<open>+\<infinity>\<close>.
\<close>

definition Math_round :: "rat \<Rightarrow> int" where
  "Math_round x = \<lfloor>x + 1 / 2\<rfloor>"

text \<open>
  The operands of \<^verbatim>\<open>+\<close> in this handler: a number, a string, or an object literal, which
  \<^verbatim>\<open>+\<close> converts to the string \<^verbatim>\<open>[object Object]\<close> whatever its fields.
\<close>

datatype js_value = Num rat | Str string | Obj

definition digit :: "nat \<Rightarrow> char" where
  "digit n = char_of (48 + n)"

fun digits :: "nat \<Rightarrow> string" where
  "digits n = (if n < 10 then [digit n] else digits (n div 10) @ [digit (n mod 10)])"

declare digits.simps [simp del]

text \<open>
  \<^verbatim>\<open>Number::toString\<close> for a multiple of 1/100 of magnitude below \<open>10\<^sup>2\<^sup>1\<close>, which is
  what this handler converts: the integer part, then the fraction without trailing zeros.
\<close>

definition number_to_string :: "rat \<Rightarrow> string" where
  "number_to_string x =
     (let n = nat \<lfloor>\<bar>x\<bar> * 100\<rfloor>; whole = n div 100; frac = n mod 100
      in (if x < 0 \<and> 0 < n then ''-'' else '''') @ digits whole @
         (if frac = 0 then ''''
          else if frac mod 10 = 0 then CHR ''.'' # [digit (frac div 10)]
          else CHR ''.'' # [digit (frac div 10), digit (frac mod 10)]))"

fun to_string :: "js_value \<Rightarrow> string" where
  "to_string (Num x) = number_to_string x"
| "to_string (Str s) = s"
| "to_string Obj = ''[object Object]''"

text \<open>\<^verbatim>\<open>a + b\<close>: addition of two numbers, concatenation of the strings otherwise.\<close>

fun js_plus :: "js_value \<Rightarrow> js_value \<Rightarrow> js_value" where
  "js_plus (Num a) (Num b) = Num (a + b)"
| "js_plus a b = Str (to_string a @ to_string b)"

text \<open>
  \<^verbatim>\<open>x.toFixed(2)\<close> on a number (ECMAScript, \<^verbatim>\<open>Number.prototype.toFixed\<close>): the sign is
  split off; a magnitude of \<open>10\<^sup>2\<^sup>1\<close> or more is printed by \<^verbatim>\<open>ToString\<close> in exponent
  notation, which is not modelled further; otherwise \<open>n\<close> is the integer nearest to a
  hundred times the magnitude (the larger of two equally near ones), its digits are
  padded with zeros to three at least, and a point goes before the last two.
\<close>

datatype rendering = Fixed string | Exponent rat

definition number_toFixed2 :: "rat \<Rightarrow> rendering" where
  "number_toFixed2 x =
     (if 10 ^ 21 \<le> \<bar>x\<bar> then Exponent x
      else let s = (if x < 0 then ''-'' else '''');
               n = nat \<lfloor>\<bar>x\<bar> * 100 + 1 / 2\<rfloor>;
               m = digits n;
               m = (if length m \<le> 2 then replicate (3 - length m) CHR ''0'' @ m else m);
               a = take (length m - 2) m;
               b = drop (length m - 2) m
           in Fixed (s @ a @ ''.'' @ b))"

text \<open>A string and an object have no method \<^verbatim>\<open>toFixed\<close>: the call raises a \<^verbatim>\<open>TypeError\<close>.\<close>

fun toFixed2 :: "js_value \<Rightarrow> error + rendering" where
  "toFixed2 (Num x) = Inr (number_toFixed2 x)"
| "toFixed2 (Str s) = Inl TypeError"
| "toFixed2 Obj = Inl TypeError"

subsection \<open>Objects used as maps\<close>

text \<open>
  A JavaScript object is the list of its properties in the order \<^verbatim>\<open>Object.values\<close>
  visits them: first the keys that are array indices (canonical decimal numerals up to
  \<open>2\<^sup>3\<^sup>2 - 2\<close>) in ascending numeric order, then the other keys in the order of
  their creation.  \<open>put\<close> is the assignment \<^verbatim>\<open>obj[k] = v\<close> on such a list, and
  \<open>map_of\<close> the lookup \<^verbatim>\<open>obj[k]\<close>.

  Both are those of own properties.  An object literal also inherits the members of
  \<^verbatim>\<open>Object.prototype\<close>: a lookup of \<^verbatim>\<open>constructor\<close> or \<^verbatim>\<open>toString\<close> finds a function
  there, and an assignment to \<^verbatim>\<open>__proto__\<close> replaces the prototype and creates no
  property.  Keys with these names are outside the model.
\<close>

definition prototype_key :: string where
  "prototype_key = ''__proto__''"

definition is_digit :: "char \<Rightarrow> bool" where
  "is_digit c = (48 \<le> (of_char c :: nat) \<and> (of_char c :: nat) \<le> 57)"

definition index_value :: "string \<Rightarrow> int" where
  "index_value k = foldl (\<lambda>n c. 10 * n + (of_char c - 48)) 0 k"

definition is_array_index :: "string \<Rightarrow> bool" where
  "is_array_index k =
     (k \<noteq> [] \<and> list_all is_digit k \<and> (k = ''0'' \<or> hd k \<noteq> CHR ''0'')
      \<and> length k \<le> 10 \<and> index_value k \<le> 4294967294)"

fun put :: "string \<Rightarrow> 'v \<Rightarrow> (string \<times> 'v) list \<Rightarrow> (string \<times> 'v) list" where
  "put k v [] = [(k, v)]"
| "put k v ((k', v') # ps) =
     (if k' = k then (k, v) # ps
      else if is_array_index k \<and> (is_array_index k' \<longrightarrow> index_value k < index_value k')
        then (k, v) # (k', v') # ps
      else (k', v') # put k v ps)"

definition Object_values :: "(string \<times> 'v) list \<Rightarrow> 'v list" where
  "Object_values obj = map snd obj"

subsection \<open>The handler\<close>

record identity =
  name :: string
  user_id :: string

record peer = identity +
  joined_at :: int
  left_at :: int

record summary = identity +
  duration :: js_value

record session =
  peers :: "(string \<times> peer) list"
  created_at :: int
  updated_at :: int

definition roundedDuration :: "peer \<Rightarrow> rat" where
  "roundedDuration p =
     (let duration = asMinutes (moment_diff (left_at p) (joined_at p))
      in of_int (Math_round (duration * 100)) / 100)"

text \<open>\<^verbatim>\<open>acc[peer.user_id] || 0\<close>: the entry stored for the user, an object, or else 0.\<close>

fun or_zero :: "summary option \<Rightarrow> js_value" where
  "or_zero None = Num 0"
| "or_zero (Some entry) = Obj"

text \<open>The callback of \<^verbatim>\<open>peers.reduce\<close>, and the reduction from \<^verbatim>\<open>{}\<close>.\<close>

definition add_peer :: "(string \<times> summary) list \<Rightarrow> peer \<Rightarrow> (string \<times> summary) list" where
  "add_peer acc p =
     put (user_id p)
       \<lparr>name = name p, user_id = user_id p,
        duration = js_plus (or_zero (map_of acc (user_id p))) (Num (roundedDuration p))\<rparr>
       acc"

definition detailsByUser :: "peer list \<Rightarrow> (string \<times> summary) list" where
  "detailsByUser ps = foldl add_peer [] ps"

text \<open>\<^verbatim>\<open>result\<close>, the per-user list, for the peers of a session in their order.\<close>

definition user_durations :: "peer list \<Rightarrow> summary list" where
  "user_durations ps = Object_values (detailsByUser ps)"

definition total_duration :: "summary list \<Rightarrow> js_value" where
  "total_duration result = foldl (\<lambda>a b. js_plus a (duration b)) (Num 0) result"

definition session_minutes :: "session \<Rightarrow> rat" where
  "session_minutes sessionData =
     asMinutes (moment_diff (updated_at sessionData) (created_at sessionData))"

record analytics =
  user_duration_list :: "summary list"
  session_duration :: rendering
  total_peer_duration :: rendering

text \<open>
  The handler, given the answer of \<^verbatim>\<open>apiService.get("/sessions", {room_id})\<close>.  Reading
  \<^verbatim>\<open>.length\<close> of a missing \<^verbatim>\<open>data\<close> raises a \<^verbatim>\<open>TypeError\<close>, as does \<^verbatim>\<open>toFixed\<close> on a
  string; both end in the \<^verbatim>\<open>catch\<close>.
\<close>

definition session_analytics_by_room :: "error + session page \<Rightarrow> analytics response" where
  "session_analytics_by_room answer =
     (case answer of
        Inl err \<Rightarrow> Status 500 ''Internal Server Error''
      | Inr sessionListData \<Rightarrow>
          (case data sessionListData of
             None \<Rightarrow> Status 500 ''Internal Server Error''
           | Some d \<Rightarrow>
               if length d > 0 then
                 (let sessionData = d ! 0;
                      result = user_durations (Object_values (peers sessionData))
                  in case toFixed2 (total_duration result) of
                       Inl err \<Rightarrow> Status 500 ''Internal Server Error''
                     | Inr totalDuration \<Rightarrow>
                         Json \<lparr>user_duration_list = result,
                               session_duration = number_toFixed2 (session_minutes sessionData),
                               total_peer_duration = totalDuration\<rparr>)
               else Status 404 ''No session found for this room''))"

subsection \<open>Vocabulary of the specification\<close>




text \<open>
  The order of first occurrence: each element once, at the place where it is first seen.
\<close>

fun first_seen :: "'a list \<Rightarrow> 'a list \<Rightarrow> 'a list" where
  "first_seen seen [] = []"
| "first_seen seen (x # xs) =
     (if x \<in> set seen then first_seen seen xs else x # first_seen (seen @ [x]) xs)"

definition first_occurrences :: "'a list \<Rightarrow> 'a list" where
  "first_occurrences xs = first_seen [] xs"



text \<open>The instants a \<^verbatim>\<open>Date\<close> can hold: 8.64e15 milliseconds either side of the epoch.\<close>

definition in_date_range :: "int \<Rightarrow> bool" where
  "in_date_range t = (\<bar>t\<bar> \<le> 8640000000000000)"

text \<open>Every entry of \<^verbatim>\<open>detailsByUser\<close> is stored under its own \<^verbatim>\<open>user_id\<close>.\<close>

definition keyed :: "(string \<times> summary) list \<Rightarrow> bool" where
  "keyed acc = (\<forall>(k, v) \<in> set acc. user_id v = k)"

text \<open>
  A duration that is a string, and a user whose stored entry has such a duration.
\<close>

definition is_string :: "js_value \<Rightarrow> bool" where
  "is_string v = (case v of Str s \<Rightarrow> True | _ \<Rightarrow> False)"

definition concatenated :: "(string \<times> summary) list \<Rightarrow> string \<Rightarrow> bool" where
  "concatenated acc k =
     (case map_of acc k of None \<Rightarrow> False | Some e \<Rightarrow> is_string (duration e))"

text \<open>Sample data: peer entries by name, user, and the instants of joining and leaving.\<close>

definition entry :: "string \<Rightarrow> string \<Rightarrow> int \<Rightarrow> int \<Rightarrow> peer" where
  "entry n u j l = \<lparr>name = n, user_id = u, joined_at = j, left_at = l\<rparr>"

definition session_of :: "peer list \<Rightarrow> session" where
  "session_of ps =
     \<lparr>peers = zip (map (\<lambda>i. CHR ''p'' # digits i) [0..<length ps]) ps,
      created_at = 0, updated_at = 720000\<rparr>"

definition sessions_answer :: "session list \<Rightarrow> error + session page" where
  "sessions_answer ss = Inr \<lparr>data = Some ss, last_cursor = None\<rparr>"

section \<open>GET /list-rooms: guest codes per room\<close>

text \<open>
  Rooms and room codes are JSON objects whose fields the upstream owns.  An object is the
  list of its properties in enumeration order, as above; its values are JSON values.
\<close>

datatype json =
    JNull
  | JBool bool
  | JNum rat
  | JStr string
  | JArr "json list"
  | JObj "(string \<times> json) list"

type_synonym object = "(string \<times> json) list"

text \<open>
  The body of \<^verbatim>\<open>GET /rooms\<close> is \<^verbatim>\<open>{ data: [room1, room2, ...], limit, last }\<close>: a page of
  rooms, with any further fields in the extension of the record.  The body may also be
  \<^verbatim>\<open>null\<close>, which the handler checks for.

  The sub-requests \<^verbatim>\<open>apiService.get(`/room-codes/room/${room.id}`)\<close> are issued in the
  order of the rooms, one by each callback of \<^verbatim>\<open>map\<close> before it first suspends.  The codes
  API gives the answer to the sub-request of the room at a position, whose path is fixed by
  the value of the room's \<^verbatim>\<open>id\<close>.
\<close>

type_synonym codes_api = "nat \<Rightarrow> json option \<Rightarrow> error + object page option"

text \<open>
  \<^verbatim>\<open>guestCodes\<close>: empty unless the response and its \<^verbatim>\<open>data\<close> are there, and then the codes
  with \<^verbatim>\<open>code.role === "guest"\<close>.
\<close>

definition guestCodes :: "object page option \<Rightarrow> object list" where
  "guestCodes roomCodesResponse =
     (case roomCodesResponse of
        None \<Rightarrow> []
      | Some r \<Rightarrow>
          (case data r of
             None \<Rightarrow> []
           | Some d \<Rightarrow> filter (\<lambda>code. map_of code ''role'' = Some (JStr ''guest'')) d))"

text \<open>
  One callback of \<^verbatim>\<open>map\<close>, given the answer to its sub-request:
  \<^verbatim>\<open>{ ...room, guest_room_codes: guestCodes }\<close>, or in the \<^verbatim>\<open>catch\<close>
  \<^verbatim>\<open>{ ...room, guest_room_codes: [], error_fetching_codes: "Failed to retrieve room codes" }\<close>.
  The spread copies the properties of the room in order; each further entry of the literal
  is an assignment to the copy.
\<close>

definition with_guest_codes :: "error + object page option \<Rightarrow> object \<Rightarrow> object" where
  "with_guest_codes answer room =
     (case answer of
        Inr roomCodesResponse \<Rightarrow>
          put ''guest_room_codes'' (JArr (map JObj (guestCodes roomCodesResponse))) room
      | Inl codeError \<Rightarrow>
          put ''error_fetching_codes'' (JStr ''Failed to retrieve room codes'')
            (put ''guest_room_codes'' (JArr []) room))"

text \<open>\<^verbatim>\<open>Promise.all(roomListData.data.map(...))\<close>: the results in the order of the rooms.\<close>

definition roomsWithGuestCodes :: "codes_api \<Rightarrow> object list \<Rightarrow> object list" where
  "roomsWithGuestCodes codes rooms =
     map (\<lambda>(i, room). with_guest_codes (codes i (map_of room ''id'')) room) (enumerate 0 rooms)"

definition list_rooms ::
    "error + (object, 'm) page_scheme option \<Rightarrow> codes_api
      \<Rightarrow> (object, 'm) page_scheme option response" where
  "list_rooms answer codes =
     (case answer of
        Inl err \<Rightarrow> Status 500 ''Internal Server Error''
      | Inr roomListData \<Rightarrow>
          (case roomListData of
             None \<Rightarrow> Json None
           | Some body \<Rightarrow>
               (case data body of
                  None \<Rightarrow> Json (Some body)
                | Some rooms \<Rightarrow>
                    if length rooms > 0
                    then Json (Some (body\<lparr>data := Some (roomsWithGuestCodes codes rooms)\<rparr>))
                    else Json (Some body))))"

text \<open>Sample data: rooms, a page of them, and codes APIs.\<close>

definition room_a :: object where
  "room_a = [(''id'', JStr ''room-a''), (''name'', JStr ''standup''), (''enabled'', JBool True)]"

definition room_b :: object where
  "room_b = [(''id'', JStr ''room-b''), (''guest_room_codes'', JStr ''legacy'')]"

definition guest_code :: object where
  "guest_code = [(''code'', JStr ''abc-defg-hij''), (''role'', JStr ''guest'')]"

definition host_code :: object where
  "host_code = [(''code'', JStr ''klm-nopq-rst''), (''role'', JStr ''host'')]"

definition rooms_body :: "object list \<Rightarrow> object page" where
  "rooms_body rooms = \<lparr>data = Some rooms, last_cursor = Some ''room-z''\<rparr>"

definition codes_ok :: codes_api where
  "codes_ok i room_id_value =
     Inr (Some \<lparr>data = Some [guest_code, host_code], last_cursor = None\<rparr>)"

definition codes_failing_at :: "nat \<Rightarrow> codes_api" where
  "codes_failing_at i j room_id_value =
     (if j = i then Inl UpstreamError else codes_ok j room_id_value)"

definition no_codes :: codes_api where
  "no_codes i room_id_value = Inr None"

section \<open>Properties of the pagination loop\<close>

subsection \<open>What one iteration does, by the kind of \<^verbatim>\<open>allSessions\<close>\<close>

lemma walk_from_number:
  "walk api room (JNumber n) l calls =
     (let q = \<lparr>room_id = room, limit = 20, start = (if truthy l then l else None)\<rparr> in
      case api (length calls) q of
        Inl err \<Rightarrow> (Inl err, calls @ [q])
      | Inr p \<Rightarrow> (if page_items (Inr p) = [] then (Inr (JNumber n), calls @ [q])
                  else (Inl TypeError, calls @ [q])))"
  by (subst walk.simps) (simp add: Let_def split: sum.splits option.splits)

lemma walk_from_array:
  "walk api room (JArray xs) l calls =
     (let q = \<lparr>room_id = room, limit = 20, start = (if truthy l then l else None)\<rparr> in
      case api (length calls) q of
        Inl err \<Rightarrow> (Inl err, calls @ [q])
      | Inr p \<Rightarrow> (if page_items (Inr p) = [] then (Inr (JArray xs), calls @ [q])
                  else if length (page_items (Inr p)) < 20
                    then (Inr (JNumber (length xs + 1)), calls @ [q])
                  else walk api room (JNumber (length xs + 1)) (last_cursor p) (calls @ [q])))"
  by (subst walk.simps) (simp add: Let_def split: sum.splits option.splits)

text \<open>Every run of the handler is one of these six.\<close>

lemma session_list_by_room_unfold:
  "session_list_by_room api room =
     (case api 0 (first_query room) of
        Inl err \<Rightarrow> (Status 500 ''Internal Server Error'', [first_query room])
      | Inr p \<Rightarrow>
          if page_items (Inr p) = [] then (Json (JArray []), [first_query room])
          else if length (page_items (Inr p)) < 20 then (Json (JNumber 1), [first_query room])
          else (case api 1 (next_query room p) of
                  Inl err \<Rightarrow> (Status 500 ''Internal Server Error'',
                                [first_query room, next_query room p])
                | Inr p' \<Rightarrow>
                    if page_items (Inr p') = []
                    then (Json (JNumber 1), [first_query room, next_query room p])
                    else (Status 500 ''Internal Server Error'',
                          [first_query room, next_query room p])))"
  by (simp add: session_list_by_room_def walk_from_array walk_from_number first_query_def
      next_query_def Let_def split: sum.splits)

lemma upt_two: "[0..<2] = [0, 1]"
  by (simp add: upt_rec)

text \<open>
  Claim C2.  An upstream with \<open>k\<close> full pages of 20 items followed by a short page is
  said to be walked in \<open>k + 1\<close> requests, the result being the \<open>k + 1\<close> pages as nested
  groups.  The run below has \<open>k = 2\<close> full pages and a short page of one item: the handler
  issues two requests, not three, and answers 500, because the second \<^verbatim>\<open>push\<close> is called on
  the number the first one left in \<^verbatim>\<open>allSessions\<close>.
\<close>

theorem full_pages_then_short_page_fails:
  "session_list_by_room (serve [full_page ''c1'', full_page ''c2'', short_page]) room
     = (Status 500 ''Internal Server Error'',
        [\<lparr>room_id = room, limit = 20, start = None\<rparr>,
         \<lparr>room_id = room, limit = 20, start = Some ''c1''\<rparr>])"
  by (simp add: session_list_by_room_unfold serve_def full_page_def short_page_def
      first_query_def next_query_def)

text \<open>
  Claim C6.  The loop ends after at most \<open>\<lceil>totalItems / 20\<rceil> + 1\<close> iterations, and a page
  with fewer than 20 items ends it with no further call, whatever cursor the page carried.
  \<open>walk\<close> is a total function, so every run ends (by \<^verbatim>\<open>break\<close> or by a thrown error); the
  number of iterations is the number of logged calls, and the items counted are those the
  upstream really delivered, which are at most the items it holds.
\<close>

theorem walk_iteration_bound:
  fixes api :: "'a resource_api"
  shows "let calls = snd (session_list_by_room api room) in
           int (length calls) \<le> \<lceil>real (delivered api calls) / 20\<rceil> + 1
         \<and> (\<forall>i < length calls. length (page_items (api i (calls ! i))) < 20
               \<longrightarrow> length calls = i + 1)"
  by (auto simp: session_list_by_room_unfold delivered_def Let_def upt_two less_Suc_eq
      split: sum.splits if_splits)

theorem walk_iteration_bound_witness:
  "snd (session_list_by_room (serve [short_page]) ''room-1'')
     = [\<lparr>room_id = ''room-1'', limit = 20, start = None\<rparr>]
   \<and> delivered (serve [short_page]) [\<lparr>room_id = ''room-1'', limit = 20, start = None\<rparr>] = 1
   \<and> (0::nat) < length [\<lparr>room_id = ''room-1'', limit = 20, start = None\<rparr>]
   \<and> length (page_items (serve [short_page] 0 \<lparr>room_id = ''room-1'', limit = 20, start = None\<rparr>))
       < 20
   \<and> last_cursor short_page = Some ''more''
   \<and> length (snd (session_list_by_room (serve [short_page]) ''room-1'')) = 0 + 1"
  using walk_iteration_bound [of "serve [short_page]" "''room-1''"]
  by (simp add: session_list_by_room_unfold serve_def short_page_def first_query_def
      delivered_def)

text \<open>
  Claim C8.  \<^verbatim>\<open>allSessions = allSessions.push(...)\<close> stores the new length.  A first page
  that is non-empty and short makes the response body the number 1; a first page of exactly
  20 items followed by a non-empty page makes the request fail with 500; and the response
  is an array only when the first page is empty (no items, or no \<^verbatim>\<open>data\<close>), and then
  it is the empty array.
\<close>

theorem push_result_replaces_all_sessions:
  fixes api :: "'a resource_api"
  shows "(\<forall>p. api 0 (first_query room) = Inr p \<and> page_items (Inr p) \<noteq> []
              \<and> length (page_items (Inr p)) < 20
            \<longrightarrow> session_list_by_room api room = (Json (JNumber 1), [first_query room]))
       \<and> (\<forall>p p'. api 0 (first_query room) = Inr p \<and> length (page_items (Inr p)) = 20
              \<and> api 1 (next_query room p) = Inr p' \<and> page_items (Inr p') \<noteq> []
            \<longrightarrow> session_list_by_room api room
                = (Status 500 ''Internal Server Error'', [first_query room, next_query room p]))
       \<and> (\<forall>xs. fst (session_list_by_room api room) = Json (JArray xs)
            \<longleftrightarrow> xs = [] \<and> (\<exists>p. api 0 (first_query room) = Inr p \<and> page_items (Inr p) = []))"
  by (auto simp: session_list_by_room_unfold split: sum.splits if_splits)

theorem push_result_replaces_all_sessions_witness:
  "(serve [short_page] 0 (first_query ''room-1'') = Inr short_page
      \<and> page_items (Inr short_page) \<noteq> [] \<and> length (page_items (Inr short_page)) < 20
      \<and> session_list_by_room (serve [short_page]) ''room-1''
          = (Json (JNumber 1), [first_query ''room-1'']))
   \<and> (serve [full_page ''c1'', short_page] 0 (first_query ''room-1'') = Inr (full_page ''c1'')
      \<and> length (page_items (Inr (full_page ''c1''))) = 20
      \<and> serve [full_page ''c1'', short_page] 1 (next_query ''room-1'' (full_page ''c1''))
          = Inr short_page
      \<and> page_items (Inr short_page) \<noteq> []
      \<and> session_list_by_room (serve [full_page ''c1'', short_page]) ''room-1''
          = (Status 500 ''Internal Server Error'',
             [first_query ''room-1'', next_query ''room-1'' (full_page ''c1'')]))
   \<and> (serve ([] :: nat page list) 0 (first_query ''room-1'')
          = Inr \<lparr>data = None, last_cursor = None\<rparr>
      \<and> page_items (Inr \<lparr>data = None, last_cursor = None\<rparr> :: error + nat page) = []
      \<and> fst (session_list_by_room (serve ([] :: nat page list)) ''room-1'') = Json (JArray []))"
  using push_result_replaces_all_sessions [of "serve [short_page]" "''room-1''"]
    push_result_replaces_all_sessions [of "serve [full_page ''c1'', short_page]" "''room-1''"]
    push_result_replaces_all_sessions [of "serve ([] :: nat page list)" "''room-1''"]
  by (simp add: serve_def short_page_def full_page_def)

section \<open>Properties of the duration aggregation\<close>

subsection \<open>Assignment to an object\<close>

lemma map_of_put: "map_of (put k v ps) = (map_of ps)(k \<mapsto> v)"
  by (induction ps) (auto simp: fun_eq_iff)

lemma keys_put: "fst ` set (put k v ps) = insert k (fst ` set ps)"
  by (simp add: dom_map_of_conv_image_fst [symmetric] map_of_put)

subsection \<open>Rounding of one peer entry\<close>







subsection \<open>The empty session list\<close>



subsection \<open>Rendering with two decimals\<close>


lemma digits_not_Nil: "digits n \<noteq> []"
  by (subst digits.simps) simp







text \<open>Minutes between two instants of a \<^verbatim>\<open>Date\<close> are in the range of fixed notation.\<close>

lemma date_range_minutes_fixed:
  assumes "in_date_range a" "in_date_range b"
  shows "\<bar>asMinutes (moment_diff a b)\<bar> < 10 ^ 21"
proof -
  have "\<bar>a - b\<bar> \<le> 17280000000000000"
    using assms by (simp add: in_date_range_def)
  then have "\<bar>(of_int (a - b) :: rat)\<bar> \<le> 17280000000000000"
    by (metis of_int_abs of_int_le_iff of_int_numeral)
  then have "\<bar>(of_int (a - b) :: rat) / 60000\<bar> \<le> 17280000000000000 / 60000"
    by (simp add: divide_right_mono)
  then show ?thesis
    by (simp add: asMinutes_def moment_diff_def)
qed



subsection \<open>Order of the per-user list\<close>

lemma keys_put_plain:
  "\<not> is_array_index k \<Longrightarrow>
     map fst (put k v ps) = (if k \<in> set (map fst ps) then map fst ps else map fst ps @ [k])"
  by (induction ps) (force split: if_splits)+

lemma set_put: "set (put k v ps) \<subseteq> insert (k, v) (set ps)"
  by (induction ps) (auto split: if_splits)

lemma keys_add_peer:
  "\<not> is_array_index (user_id p) \<Longrightarrow>
     map fst (add_peer acc p)
       = (if user_id p \<in> set (map fst acc) then map fst acc else map fst acc @ [user_id p])"
  by (simp add: add_peer_def keys_put_plain)

lemma keys_foldl_add_peer:
  "\<forall>p \<in> set ps. \<not> is_array_index (user_id p) \<Longrightarrow>
     map fst (foldl add_peer acc ps) = map fst acc @ first_seen (map fst acc) (map user_id ps)"
proof (induction ps arbitrary: acc)
  case Nil
  then show ?case by simp
next
  case (Cons p ps)
  then have "map fst (foldl add_peer (add_peer acc p) ps)
      = map fst (add_peer acc p) @ first_seen (map fst (add_peer acc p)) (map user_id ps)"
    by simp
  moreover have "\<not> is_array_index (user_id p)" using Cons.prems by simp
  ultimately show ?case by (simp add: keys_add_peer)
qed

lemma keyed_add_peer: "keyed acc \<Longrightarrow> keyed (add_peer acc p)"
  using set_put [of "user_id p" _ acc] by (fastforce simp: keyed_def add_peer_def)

lemma keyed_foldl: "keyed acc \<Longrightarrow> keyed (foldl add_peer acc ps)"
  by (induction ps arbitrary: acc) (simp_all add: keyed_add_peer)

lemma keyed_values: "keyed acc \<Longrightarrow> map user_id (Object_values acc) = map fst acc"
  by (induction acc) (auto simp: keyed_def Object_values_def)

text \<open>
  Claim C9, as amended.  When no \<^verbatim>\<open>user_id\<close> of the session is an array index (a decimal
  numeral from 0 to \<open>2\<^sup>3\<^sup>2 - 2\<close> without leading zeros) or the name \<^verbatim>\<open>__proto__\<close>,
  the per-user list is in the order in which each distinct \<^verbatim>\<open>user_id\<close> first occurs
  among the peers.
\<close>

theorem user_durations_in_first_occurrence_order:
  "\<forall>p \<in> set ps. \<not> is_array_index (user_id p) \<and> user_id p \<noteq> prototype_key \<Longrightarrow>
     map user_id (user_durations ps) = first_occurrences (map user_id ps)"
proof -
  assume "\<forall>p \<in> set ps. \<not> is_array_index (user_id p) \<and> user_id p \<noteq> prototype_key"
  then have plain: "\<forall>p \<in> set ps. \<not> is_array_index (user_id p)"
    by simp
  have "keyed (detailsByUser ps)"
    unfolding detailsByUser_def by (rule keyed_foldl) (simp add: keyed_def)
  then have "map user_id (user_durations ps) = map fst (detailsByUser ps)"
    by (simp add: user_durations_def keyed_values)
  also have "\<dots> = first_occurrences (map user_id ps)"
    using keys_foldl_add_peer [OF plain, of "[]"]
    by (simp add: detailsByUser_def first_occurrences_def)
  finally show ?thesis .
qed

theorem user_durations_in_first_occurrence_order_witness:
  "\<not> is_array_index ''u2'' \<and> \<not> is_array_index ''u1'' \<and> \<not> is_array_index ''u3''
   \<and> ''u2'' \<noteq> prototype_key \<and> ''u1'' \<noteq> prototype_key \<and> ''u3'' \<noteq> prototype_key
   \<and> map user_id (user_durations [entry ''Ann'' ''u2'' 0 300300,
         entry ''Bob'' ''u1'' 400000 520000, entry ''Cy'' ''u3'' 600000 660000,
         entry ''Bob'' ''u1'' 700000 820000])
       = [''u2'', ''u1'', ''u3'']"
proof -
  let ?ps = "[entry ''Ann'' ''u2'' 0 300300, entry ''Bob'' ''u1'' 400000 520000,
              entry ''Cy'' ''u3'' 600000 660000, entry ''Bob'' ''u1'' 700000 820000]"
  have plain: "\<forall>p \<in> set ?ps. \<not> is_array_index (user_id p) \<and> user_id p \<noteq> prototype_key"
    by code_simp
  have "first_occurrences (map user_id ?ps) = [''u2'', ''u1'', ''u3'']"
    by code_simp
  with plain user_durations_in_first_occurrence_order [OF plain] show ?thesis
    by (simp add: entry_def)
qed

text \<open>
  Claim C9 as stated fails when user ids are numerals: with the peers of users \<^verbatim>\<open>2\<close>
  and \<^verbatim>\<open>1\<close>, in this order, the list has user \<^verbatim>\<open>1\<close> first.
\<close>

theorem numeral_user_ids_listed_ascending:
  "map user_id (user_durations [entry ''Ann'' ''2'' 0 300300, entry ''Bob'' ''1'' 400000 520000])
     \<noteq> first_occurrences
          (map user_id [entry ''Ann'' ''2'' 0 300300, entry ''Bob'' ''1'' 400000 520000])"
  by code_simp

subsection \<open>A user with two peer entries\<close>

text \<open>
  Claim C1.  Two peer entries of one user, of 5.005 and 2.0 minutes, are said to give one
  entry with duration 7.01.  The handler gives one entry, but its duration is the string
  \<^verbatim>\<open>[object Object]2\<close>: the stored entry, an object, is what \<^verbatim>\<open>+\<close> gets as the running
  total.  The sum over the list is then a string too, \<^verbatim>\<open>toFixed\<close> fails on it, and the
  request is answered with 500.
\<close>

theorem repeated_user_id_concatenates:
  "user_durations [entry ''Ann'' ''u1'' 0 300300, entry ''Ann'' ''u1'' 400000 520000]
     = [\<lparr>name = ''Ann'', user_id = ''u1'', duration = Str ''[object Object]2''\<rparr>]
   \<and> roundedDuration (entry ''Ann'' ''u1'' 0 300300) = 501 / 100
   \<and> roundedDuration (entry ''Ann'' ''u1'' 400000 520000) = 2
   \<and> session_analytics_by_room
         (sessions_answer [session_of [entry ''Ann'' ''u1'' 0 300300,
                                       entry ''Ann'' ''u1'' 400000 520000]])
        = Status 500 ''Internal Server Error''"
  by code_simp

text \<open>
  The same happens in every session in which some user has more than one peer entry.
\<close>

lemma map_of_add_peer:
  "map_of (add_peer acc p) =
     (map_of acc)(user_id p \<mapsto>
        \<lparr>name = name p, user_id = user_id p,
         duration = js_plus (or_zero (map_of acc (user_id p))) (Num (roundedDuration p))\<rparr>)"
  by (simp add: add_peer_def map_of_put)

lemma concatenated_second_entry:
  "map_of acc (user_id p) \<noteq> None \<Longrightarrow> concatenated (add_peer acc p) (user_id p)"
  by (auto simp: concatenated_def map_of_add_peer is_string_def)

lemma concatenated_add_peer:
  "concatenated acc k \<Longrightarrow> concatenated (add_peer acc p) k"
  by (auto simp: concatenated_def map_of_add_peer is_string_def split: option.splits)

lemma concatenated_foldl:
  "concatenated acc k \<Longrightarrow> concatenated (foldl add_peer acc ps) k"
  by (induction ps arbitrary: acc) (simp_all add: concatenated_add_peer)

lemma stored_then_seen_again:
  "map_of acc k \<noteq> None \<Longrightarrow> k \<in> user_id ` set ps \<Longrightarrow> concatenated (foldl add_peer acc ps) k"
proof (induction ps arbitrary: acc)
  case Nil
  then show ?case by simp
next
  case (Cons p ps)
  show ?case
  proof (cases "user_id p = k")
    case True
    with Cons.prems(1) have "concatenated (add_peer acc p) k"
      using concatenated_second_entry by blast
    then show ?thesis by (simp add: concatenated_foldl)
  next
    case False
    with Cons.prems have "map_of (add_peer acc p) k \<noteq> None" "k \<in> user_id ` set ps"
      by (auto simp: map_of_add_peer)
    then show ?thesis using Cons.IH by simp
  qed
qed

lemma repeated_then_concatenated:
  "\<not> distinct (map user_id ps) \<Longrightarrow> \<exists>k. concatenated (foldl add_peer acc ps) k"
proof (induction ps arbitrary: acc)
  case Nil
  then show ?case by simp
next
  case (Cons p ps)
  show ?case
  proof (cases "user_id p \<in> user_id ` set ps")
    case True
    have "map_of (add_peer acc p) (user_id p) \<noteq> None"
      by (simp add: map_of_add_peer)
    then have "concatenated (foldl add_peer (add_peer acc p) ps) (user_id p)"
      using True by (rule stored_then_seen_again)
    then show ?thesis by auto
  next
    case False
    with Cons.prems have "\<not> distinct (map user_id ps)" by simp
    then show ?thesis using Cons.IH by simp
  qed
qed

lemma js_plus_string: "is_string a \<or> is_string b \<Longrightarrow> is_string (js_plus a b)"
  by (cases a; cases b) (auto simp: is_string_def)

lemma total_string:
  "is_string a \<or> (\<exists>e \<in> set result. is_string (duration e)) \<Longrightarrow>
     is_string (foldl (\<lambda>a b. js_plus a (duration b)) a result)"
proof (induction result arbitrary: a)
  case Nil
  then show ?case by simp
next
  case (Cons e result)
  from Cons.prems have "is_string (js_plus a (duration e)) \<or> (\<exists>e \<in> set result. is_string (duration e))"
    using js_plus_string by auto
  then show ?case using Cons.IH by simp
qed

lemma toFixed2_string: "is_string v \<Longrightarrow> toFixed2 v = Inl TypeError"
  by (cases v) (auto simp: is_string_def)

lemma repeated_user_id_total:
  assumes "\<not> distinct (map user_id ps)"
  shows "toFixed2 (total_duration (user_durations ps)) = Inl TypeError"
proof -
  obtain k where "concatenated (detailsByUser ps) k"
    using repeated_then_concatenated [OF assms] by (auto simp: detailsByUser_def)
  then obtain e where "map_of (detailsByUser ps) k = Some e" "is_string (duration e)"
    by (auto simp: concatenated_def split: option.splits)
  then have "e \<in> set (user_durations ps)" "is_string (duration e)"
    by (auto simp: user_durations_def Object_values_def dest: map_of_SomeD intro: rev_image_eqI)
  then show ?thesis
    by (auto simp: total_duration_def intro!: toFixed2_string total_string)
qed

lemma repeated_user_id_fails:
  assumes "data p = Some (sessionData # rest)"
    and "\<not> distinct (map user_id (Object_values (peers sessionData)))"
  shows "session_analytics_by_room (Inr p) = Status 500 ''Internal Server Error''"
  using assms repeated_user_id_total [OF assms(2)]
  by (simp add: session_analytics_by_room_def)

section \<open>Properties of the room list\<close>

subsection \<open>The shape of the response\<close>


lemma roomsWithGuestCodes_length: "length (roomsWithGuestCodes codes rooms) = length rooms"
  by (simp add: roomsWithGuestCodes_def)

lemma roomsWithGuestCodes_nth:
  "i < length rooms \<Longrightarrow>
     roomsWithGuestCodes codes rooms ! i
       = with_guest_codes (codes i (map_of (rooms ! i) ''id'')) (rooms ! i)"
  by (simp add: roomsWithGuestCodes_def nth_enumerate_eq)

lemma list_rooms_rooms:
  "data body = Some rooms \<Longrightarrow> rooms \<noteq> [] \<Longrightarrow>
     list_rooms (Inr (Some body)) codes
       = Json (Some (body\<lparr>data := Some (roomsWithGuestCodes codes rooms)\<rparr>))"
  by (simp add: list_rooms_def)

subsection \<open>A failing sub-request\<close>

text \<open>
  Claim C3.  When the sub-request of the room at position \<open>i\<close> fails, the handler still
  answers 200 with every room; the room at \<open>i\<close> carries an empty \<^verbatim>\<open>guest_room_codes\<close> and
  the marker \<^verbatim>\<open>error_fetching_codes\<close>; and every other room is what it is under any
  codes API that answers the other sub-requests alike, in particular one whose answer at
  \<open>i\<close> is a success.
\<close>

theorem sub_request_failure_is_isolated:
  fixes body :: "(object, 'm) page_scheme"
  assumes "data body = Some rooms" and "i < length rooms"
    and "codes i (map_of (rooms ! i) ''id'') = Inl err"
    and "\<forall>j. j \<noteq> i \<longrightarrow> codes' j = codes j"
  shows "list_rooms (Inr (Some body)) codes
           = Json (Some (body\<lparr>data := Some (roomsWithGuestCodes codes rooms)\<rparr>))
         \<and> list_rooms (Inr (Some body)) codes'
           = Json (Some (body\<lparr>data := Some (roomsWithGuestCodes codes' rooms)\<rparr>))
         \<and> length (roomsWithGuestCodes codes rooms) = length rooms
         \<and> (\<forall>j < length rooms. j \<noteq> i \<longrightarrow>
               roomsWithGuestCodes codes rooms ! j = roomsWithGuestCodes codes' rooms ! j)
         \<and> map_of (roomsWithGuestCodes codes rooms ! i) ''guest_room_codes'' = Some (JArr [])
         \<and> map_of (roomsWithGuestCodes codes rooms ! i) ''error_fetching_codes''
             = Some (JStr ''Failed to retrieve room codes'')"
proof -
  have ne: "rooms \<noteq> []" using assms(2) by auto
  show ?thesis
    using assms
    by (simp add: list_rooms_rooms [OF assms(1) ne] roomsWithGuestCodes_length
        roomsWithGuestCodes_nth with_guest_codes_def map_of_put)
qed

theorem sub_request_failure_is_isolated_witness:
  "data (rooms_body [room_a, room_b]) = Some [room_a, room_b]
   \<and> (0::nat) < length [room_a, room_b]
   \<and> codes_failing_at 0 0 (map_of ([room_a, room_b] ! 0) ''id'') = Inl UpstreamError
   \<and> codes_ok 1 = codes_failing_at 0 1
   \<and> codes_ok 0 (map_of ([room_a, room_b] ! 0) ''id'')
       = Inr (Some \<lparr>data = Some [guest_code, host_code], last_cursor = None\<rparr>)
   \<and> list_rooms (Inr (Some (rooms_body [room_a, room_b]))) (codes_failing_at 0)
       = Json (Some (rooms_body
           [room_a @ [(''guest_room_codes'', JArr []),
                      (''error_fetching_codes'', JStr ''Failed to retrieve room codes'')],
            [(''id'', JStr ''room-b''), (''guest_room_codes'', JArr [JObj guest_code])]]))
   \<and> roomsWithGuestCodes (codes_failing_at 0) [room_a, room_b] ! 1
       = roomsWithGuestCodes codes_ok [room_a, room_b] ! 1"
proof -
  have h1: "data (rooms_body [room_a, room_b]) = Some [room_a, room_b]"
    by (simp add: rooms_body_def)
  have h2: "(0::nat) < length [room_a, room_b]" by simp
  have h3: "codes_failing_at 0 0 (map_of ([room_a, room_b] ! 0) ''id'') = Inl UpstreamError"
    by (simp add: codes_failing_at_def)
  have h4: "\<forall>j. j \<noteq> 0 \<longrightarrow> codes_ok j = codes_failing_at 0 j"
    by (simp add: codes_failing_at_def fun_eq_iff)
  have run: "roomsWithGuestCodes (codes_failing_at 0) [room_a, room_b]
      = [room_a @ [(''guest_room_codes'', JArr []),
                      (''error_fetching_codes'', JStr ''Failed to retrieve room codes'')],
            [(''id'', JStr ''room-b''), (''guest_room_codes'', JArr [JObj guest_code])]]"
    by code_simp
  show ?thesis
    using sub_request_failure_is_isolated [OF h1 h2 h3 h4] h1 h3 h4
    by (simp add: run rooms_body_def codes_ok_def)
qed

subsection \<open>Fields that are left alone\<close>

text \<open>
  Claim C10, as amended.  Every field of a room other than \<^verbatim>\<open>guest_room_codes\<close> and
  \<^verbatim>\<open>error_fetching_codes\<close> is in the output unchanged; \<^verbatim>\<open>error_fetching_codes\<close> too is
  unchanged when the sub-request succeeds; the output has no fields but those of the room
  and these two; and every field of the envelope other than \<^verbatim>\<open>data\<close> is passed through
  unchanged.
\<close>

theorem enrichment_frame:
  fixes body :: "(object, 'm) page_scheme"
  shows "(\<forall>i k. i < length rooms \<and> k \<noteq> ''guest_room_codes'' \<and> k \<noteq> ''error_fetching_codes''
            \<longrightarrow> map_of (roomsWithGuestCodes codes rooms ! i) k = map_of (rooms ! i) k)
       \<and> (\<forall>i r. i < length rooms \<and> codes i (map_of (rooms ! i) ''id'') = Inr r
            \<longrightarrow> map_of (roomsWithGuestCodes codes rooms ! i) ''error_fetching_codes''
                  = map_of (rooms ! i) ''error_fetching_codes'')
       \<and> (\<forall>i. i < length rooms
            \<longrightarrow> fst ` set (roomsWithGuestCodes codes rooms ! i)
                  \<subseteq> fst ` set (rooms ! i) \<union> {''guest_room_codes'', ''error_fetching_codes''})
       \<and> (\<forall>body'. list_rooms (Inr (Some body)) codes = Json (Some body')
            \<longrightarrow> last_cursor body' = last_cursor body \<and> page.more body' = page.more body)"
  by (auto simp: roomsWithGuestCodes_nth with_guest_codes_def map_of_put keys_put
      list_rooms_def split: sum.splits option.splits if_splits)

theorem enrichment_frame_witness:
  "(1::nat) < length [room_a, room_b]
   \<and> ''id'' \<noteq> ''guest_room_codes'' \<and> ''id'' \<noteq> ''error_fetching_codes''
   \<and> map_of (roomsWithGuestCodes codes_ok [room_a, room_b] ! 1) ''id'' = Some (JStr ''room-b'')
   \<and> codes_ok 1 (map_of ([room_a, room_b] ! 1) ''id'')
       = Inr (Some \<lparr>data = Some [guest_code, host_code], last_cursor = None\<rparr>)
   \<and> map_of (roomsWithGuestCodes codes_ok [room_a, room_b] ! 1) ''error_fetching_codes'' = None
   \<and> fst ` set (roomsWithGuestCodes codes_ok [room_a, room_b] ! 1)
       \<subseteq> {''id'', ''guest_room_codes'', ''error_fetching_codes''}
   \<and> list_rooms (Inr (Some (rooms_body [room_a, room_b]))) codes_ok
       = Json (Some (rooms_body (roomsWithGuestCodes codes_ok [room_a, room_b])))
   \<and> last_cursor (rooms_body (roomsWithGuestCodes codes_ok [room_a, room_b]))
       = last_cursor (rooms_body [room_a, room_b])"
proof -
  note frame = enrichment_frame [of "[room_a, room_b]" codes_ok "rooms_body [room_a, room_b]"]
  have len: "(1::nat) < length [room_a, room_b]" by simp
  have names: "''id'' \<noteq> ''guest_room_codes''" "''id'' \<noteq> ''error_fetching_codes''"
    by simp_all
  have ok: "codes_ok 1 (map_of ([room_a, room_b] ! 1) ''id'')
       = Inr (Some \<lparr>data = Some [guest_code, host_code], last_cursor = None\<rparr>)"
    by (simp add: codes_ok_def)
  have run: "list_rooms (Inr (Some (rooms_body [room_a, room_b]))) codes_ok
       = Json (Some (rooms_body (roomsWithGuestCodes codes_ok [room_a, room_b])))"
    by (simp add: list_rooms_def rooms_body_def)
  have room: "map_of ([room_a, room_b] ! 1) ''id'' = Some (JStr ''room-b'')"
      "map_of ([room_a, room_b] ! 1) ''error_fetching_codes'' = None"
      "fst ` set ([room_a, room_b] ! 1) = {''id'', ''guest_room_codes''}"
    by (simp_all add: room_b_def)
  have c1: "map_of (roomsWithGuestCodes codes_ok [room_a, room_b] ! 1) ''id''
      = Some (JStr ''room-b'')"
    using frame [THEN conjunct1, rule_format, of 1 "''id''"] len names room(1) by simp
  have c2: "map_of (roomsWithGuestCodes codes_ok [room_a, room_b] ! 1) ''error_fetching_codes''
      = None"
    using frame [THEN conjunct2, THEN conjunct1, rule_format, OF conjI, OF len ok] room(2)
    by simp
  have c3: "fst ` set (roomsWithGuestCodes codes_ok [room_a, room_b] ! 1)
       \<subseteq> {''id'', ''guest_room_codes'', ''error_fetching_codes''}"
    using frame [THEN conjunct2, THEN conjunct2, THEN conjunct1, rule_format, OF len]
    unfolding room(3) by blast
  have c4: "last_cursor (rooms_body (roomsWithGuestCodes codes_ok [room_a, room_b]))
       = last_cursor (rooms_body [room_a, room_b])"
    using frame [THEN conjunct2, THEN conjunct2, THEN conjunct2, rule_format, OF run]
    by simp
  show ?thesis
    using len names ok run c1 c2 c3 c4 by blast
qed

text \<open>
  Claim C10 as stated fails for a room that already has a field \<^verbatim>\<open>guest_room_codes\<close>: the
  field of the room is not in the output, which has the codes just fetched in its place.
\<close>

theorem existing_guest_room_codes_overwritten:
  "map_of (roomsWithGuestCodes no_codes [room_a, room_b] ! 1) ''guest_room_codes''
     \<noteq> map_of ([room_a, room_b] ! 1) ''guest_room_codes''"
  by code_simp

end
